theory Spec2Isabelle
  imports Complex_Main
begin

section \<open>Data model (src/src/interfaces.ts)\<close>

text \<open>
  A TypeScript \<open>number\<close> that holds a coverage percentage is modelled as a rational.
  The values NaN and the infinities and the rounding error of binary floating point are
  outside the model; \<open>-0\<close> and \<open>0\<close> are the same rational, as they are for every
  comparison and truthiness test of the source.
\<close>

type_synonym number = rat

record CoverageFile =
  relative :: string
  absolute :: string
  coverage :: number

text \<open>
  \<open>Files\<close> is an object indexed by a string key. \<open>Object.entries\<close> lists it in
  insertion order, so it is an association list; a JavaScript object holds every key once,
  which is the predicate \<open>wf_Files\<close>.
\<close>

type_synonym Files = "(string \<times> CoverageFile) list"

record Coverage =
  files :: Files
  coverage :: number
  timestamp :: number
  basePath :: string

record Inputs =
  token :: string
  filename :: string
  badge :: bool
  overallCoverageFailThreshold :: number
  fileCoverageErrorMin :: number
  fileCoverageWarningMax :: number
  failOnNegativeDifference :: bool
  markdownFilename :: string
  artifactDownloadWorkflowNames :: "string list option"
  artifactName :: string
  reportOverallCoverage :: bool
  reportPackageCoverage :: bool
  failOnNegativeOverallDifference :: bool

definition wf_Files :: "Files \<Rightarrow> bool" where
  "wf_Files fs = distinct (map fst fs)"

text \<open>\<open>obj[key]\<close>: the value stored under the key, \<open>undefined\<close> (None) when absent.\<close>

definition at_key :: "Files \<Rightarrow> string \<Rightarrow> CoverageFile option" where
  "at_key fs k = map_of fs k"

text \<open>Truthiness of a \<open>number | null\<close>: null and 0 are falsy.\<close>

definition truthy :: "number option \<Rightarrow> bool" where
  "truthy v = (case v of None \<Rightarrow> False | Some x \<Rightarrow> x \<noteq> 0)"

section \<open>Messages, report cells and the effects of a run\<close>

text \<open>
  A template literal is kept as the list of its pieces: the literal text and the
  interpolated strings as \<open>Str\<close>, an interpolated number as \<open>Num\<close> (how JavaScript
  prints a number is not modelled).
\<close>

datatype piece = Str string | Num number

type_synonym message = "piece list"

datatype tier = Neutral | Error | Warning | Ok

text \<open>
  A shields.io badge \<open>label-value%-colour\<close> with its style; the value is null when the
  interpolated \<open>number | null\<close> is null.
\<close>

datatype badge = Badge string "number option" tier string

datatype cell =
    Plain string
  | Header string
  | Pct tier "number option"
  | BadgeImage string badge

datatype block =
    Heading string
  | Image badge string
  | Break
  | RawTable "cell list list"
  | RawText message
  | Table "cell list list"

datatype output_value = OutStr string | OutNum number

text \<open>
  What a run does to the outside: the calls of \<open>core.setFailed\<close>, \<open>core.warning\<close>,
  \<open>core.info\<close> and \<open>core.setOutput\<close> in order, the files written, the buffer of
  \<open>core.summary\<close>, the job summaries published and the artifacts uploaded.
\<close>

record state =
  failed :: "message list"
  warnings :: "message list"
  infos :: "message list"
  outputs :: "(string \<times> output_value) list"
  written :: "(string \<times> block list) list"
  summary :: "block list"
  job_summary :: "block list list"
  uploaded :: "(string list \<times> string) list"

definition init_state :: state where
  "init_state = \<lparr>failed = [], warnings = [], infos = [], outputs = [], written = [],
     summary = [], job_summary = [], uploaded = []\<rparr>"

definition setFailed :: "message \<Rightarrow> state \<Rightarrow> state" where
  "setFailed m s = s\<lparr>failed := failed s @ [m]\<rparr>"

definition warning :: "message \<Rightarrow> state \<Rightarrow> state" where
  "warning m s = s\<lparr>warnings := warnings s @ [m]\<rparr>"

definition info :: "message \<Rightarrow> state \<Rightarrow> state" where
  "info m s = s\<lparr>infos := infos s @ [m]\<rparr>"

definition setOutput :: "string \<Rightarrow> output_value \<Rightarrow> state \<Rightarrow> state" where
  "setOutput k v s = s\<lparr>outputs := outputs s @ [(k, v)]\<rparr>"

definition add_block :: "block \<Rightarrow> state \<Rightarrow> state" where
  "add_block b s = s\<lparr>summary := summary s @ [b]\<rparr>"

text \<open>
  A thrown \<open>Error\<close> is \<open>Inl\<close> of its message. The collaborators of \<open>./utils\<close> that
  reach outside the process, the Node library calls and the environment are the fields of
  \<open>env\<close>: each gives the outcome of the call in this run.
\<close>

type_synonym 'a result = "string + 'a"

record env =
  getInput :: "string \<Rightarrow> string"
  process_env :: "string \<Rightarrow> string option"
  getInputs :: Inputs
  checkFileExists :: "string \<Rightarrow> bool result"
  downloadArtifacts :: "string \<Rightarrow> string option result"
  parseCoverage :: "string \<Rightarrow> Coverage option result"
  uploadArtifacts :: "string list \<Rightarrow> string \<Rightarrow> unit result"
  path_join :: "string \<Rightarrow> string \<Rightarrow> string"
  writeFile :: "string \<Rightarrow> block list \<Rightarrow> unit result"
  summary_write :: "block list \<Rightarrow> unit result"

section \<open>The helpers of ./utils that compute\<close>

text \<open>
  Modelled from the spec: the threshold classifier of \<open>./utils\<close>, which is not among the
  sources. A null value is Neutral; a value below the error ceiling is Error; otherwise a
  value below the warning ceiling is Warning; otherwise Ok.
\<close>

definition classify :: "number option \<Rightarrow> number \<Rightarrow> number \<Rightarrow> tier" where
  "classify v warningCeiling errorCeiling =
     (case v of
        None \<Rightarrow> Neutral
      | Some p \<Rightarrow>
          if p < errorCeiling then Error
          else if p < warningCeiling then Warning
          else Ok)"

text \<open>
  Modelled from the spec: \<open>roundPercentage\<close> of \<open>./utils\<close>, which is not among the
  sources. It rounds to 2 decimal places, a half away from zero.
\<close>

definition roundPercentage :: "number \<Rightarrow> number" where
  "roundPercentage x =
     (if 0 \<le> x then of_int \<lfloor>x * 100 + 1 / 2\<rfloor> / 100
      else - (of_int \<lfloor>- x * 100 + 1 / 2\<rfloor> / 100))"

text \<open>
  Modelled from the spec: the ceilings an omitted threshold argument stands for, 80 for
  the warning ceiling and 50 for the error ceiling.
\<close>

definition warningCeiling_of :: "number option \<Rightarrow> number" where
  "warningCeiling_of t = (case t of None \<Rightarrow> 80 | Some w \<Rightarrow> w)"

definition errorCeiling_of :: "number option \<Rightarrow> number" where
  "errorCeiling_of t = (case t of None \<Rightarrow> 50 | Some e \<Rightarrow> e)"

text \<open>
  Modelled from the spec: \<open>colorizePercentageByThreshold(percentage, thresholdMax,
  thresholdMin)\<close> of \<open>./utils\<close>, which is not among the sources; the two thresholds are
  optional (None when the call omits them). The text it returns is kept as the tier and
  the percentage shown, rounded to 2 decimal places.
\<close>

definition colorizePercentageByThreshold ::
  "number option \<Rightarrow> number option \<Rightarrow> number option \<Rightarrow> cell" where
  "colorizePercentageByThreshold percentage thresholdMax thresholdMin =
     Pct (classify percentage (warningCeiling_of thresholdMax) (errorCeiling_of thresholdMin))
       (map_option roundPercentage percentage)"

text \<open>
  Modelled from the spec: \<open>colorizeBadgeByThreshold(percentage, thresholdMin,
  thresholdMax)\<close> of \<open>./utils\<close>, which is not among the sources; the two thresholds are
  optional. The colour it returns is kept as the tier it stands for.
\<close>

definition colorizeBadgeByThreshold ::
  "number option \<Rightarrow> number option \<Rightarrow> number option \<Rightarrow> tier" where
  "colorizeBadgeByThreshold percentage thresholdMin thresholdMax =
     classify percentage (warningCeiling_of thresholdMax) (errorCeiling_of thresholdMin)"

section \<open>src/src/main.ts\<close>

subsection \<open>generatePackageCoverageReport\<close>

definition generatePackageCoverageReport ::
  "Coverage option \<Rightarrow> cell list list \<Rightarrow> cell list list" where
  "generatePackageCoverageReport baseCoverage rows =
     (let headers =
        (if baseCoverage = None
         then [Header ''Package'', Header ''Coverage'']
         else [Header ''Package'', Header ''Base Coverage'', Header ''New Coverage'',
               Header ''Difference''])
      in headers # rows)"

subsection \<open>generateOverallCoverageReport\<close>

text \<open>
  \<open>markdownTable\<close> turns the rows into text; the rows themselves are kept. The parameter
  \<open>baseline\<close> defaults to null, so the \<open>undefined\<close> of \<open>baseCoverage?.coverage\<close> is
  None here too.
\<close>

definition current_row :: "number \<Rightarrow> number \<Rightarrow> number \<Rightarrow> cell list" where
  "current_row current thresholdMin thresholdMax =
     [Plain ''Current'',
      BadgeImage ''Current''
        (Badge ''Current'' (Some current)
           (colorizeBadgeByThreshold (Some current) (Some thresholdMin) (Some thresholdMax))
           ''for-the-badge'')]"

definition generateOverallCoverageReport ::
  "number \<Rightarrow> number option \<Rightarrow> number option \<Rightarrow> number \<Rightarrow> number \<Rightarrow> cell list list" where
  "generateOverallCoverageReport current baseline difference thresholdMin thresholdMax =
     (if truthy baseline
      then
        [[Plain '''', Plain ''''],
         current_row current thresholdMin thresholdMax,
         [Plain ''Baseline'',
          BadgeImage ''Baseline''
            (Badge ''Baseline'' baseline
               (colorizeBadgeByThreshold baseline (Some thresholdMin) (Some thresholdMax))
               ''for-the-badge'')],
         [Plain ''Difference'',
          BadgeImage ''Difference''
            (Badge ''Difference'' difference
               (colorizeBadgeByThreshold difference None None)
               ''for-the-badge'')]]
      else
        [[Plain '''', Plain ''''],
         current_row current thresholdMin thresholdMax])"

subsection \<open>generateMarkdown\<close>

text \<open>
  The callback of \<open>Object.entries(headCoverage.files).map\<close>, lines 88 to 132. The two
  values it computes for a file when a baseline is given:
  \<open>baseCoverage.files[hash] ? baseCoverage.files[hash].coverage : null\<close> and
  \<open>baseCoveragePercentage ? roundPercentage(file.coverage - baseCoveragePercentage) : null\<close>.
\<close>

definition baseCoveragePercentage :: "Coverage \<Rightarrow> string \<Rightarrow> number option" where
  "baseCoveragePercentage baseCoverage hash =
     (case at_key (files baseCoverage) hash of
        Some f \<Rightarrow> Some (CoverageFile.coverage f)
      | None \<Rightarrow> None)"

definition differencePercentage :: "CoverageFile \<Rightarrow> number option \<Rightarrow> number option" where
  "differencePercentage file basePct =
     (if truthy basePct
      then map_option (\<lambda>b. roundPercentage (CoverageFile.coverage file - b)) basePct
      else None)"

text \<open>
  Reading \<open>.relative\<close> of \<open>headCoverage.files[hash]\<close> throws a TypeError when the key
  is absent; that is the \<open>Inl\<close> branch.
\<close>

definition file_row ::
  "Inputs \<Rightarrow> Coverage \<Rightarrow> Coverage option \<Rightarrow> string \<times> CoverageFile \<Rightarrow> state
     \<Rightarrow> cell list result \<times> state" where
  "file_row inp headCoverage baseCoverage entry s =
     (case entry of (hash, file) \<Rightarrow>
        (case baseCoverage of
           None \<Rightarrow>
             (Inr [Plain (relative file),
                   colorizePercentageByThreshold (Some (CoverageFile.coverage file))
                     (Some (fileCoverageWarningMax inp)) (Some (fileCoverageErrorMin inp))],
              s)
         | Some base \<Rightarrow>
             (let basePct = baseCoveragePercentage base hash;
                  diff = differencePercentage file basePct;
                  row =
                    [Plain (relative file),
                     colorizePercentageByThreshold basePct
                       (Some (fileCoverageWarningMax inp)) (Some (fileCoverageErrorMin inp)),
                     colorizePercentageByThreshold (Some (CoverageFile.coverage file))
                       (Some (fileCoverageWarningMax inp)) (Some (fileCoverageErrorMin inp)),
                     colorizePercentageByThreshold diff None None]
              in (case diff of
                    None \<Rightarrow> (Inr row, s)
                  | Some d \<Rightarrow>
                      if failOnNegativeDifference inp \<and> d < 0
                      then (case at_key (files headCoverage) hash of
                              None \<Rightarrow>
                                (Inl ''Cannot read properties of undefined (reading 'relative')'',
                                 s)
                            | Some hf \<Rightarrow>
                                (Inr row,
                                 setFailed
                                   [Str (relative hf), Str '' coverage difference was '',
                                    Num d, Str ''%'']
                                   s))
                      else (Inr row, s)))))"

text \<open>\<open>Array.prototype.map\<close> with that callback: in order, stopping at a throw.\<close>

fun map_rows ::
  "('a \<Rightarrow> state \<Rightarrow> 'b result \<times> state) \<Rightarrow> 'a list \<Rightarrow> state \<Rightarrow> 'b list result \<times> state" where
  "map_rows f [] s = (Inr [], s)"
| "map_rows f (x # xs) s =
     (case f x s of
        (Inl e, s1) \<Rightarrow> (Inl e, s1)
      | (Inr r, s1) \<Rightarrow>
          (case map_rows f xs s1 of
             (Inl e, s2) \<Rightarrow> (Inl e, s2)
           | (Inr rs, s2) \<Rightarrow> (Inr (r # rs), s2)))"

text \<open>Lines 134 to 138: the absolute threshold.\<close>

definition check_threshold :: "Inputs \<Rightarrow> Coverage \<Rightarrow> state \<Rightarrow> state" where
  "check_threshold inp headCoverage s =
     (if overallCoverageFailThreshold inp > Coverage.coverage headCoverage
      then setFailed
             [Str ''FAIL: Overall coverage of '', Num (Coverage.coverage headCoverage),
              Str ''% below minimum threshold of '', Num (overallCoverageFailThreshold inp),
              Str ''%'']
             s
      else s)"

text \<open>Lines 140 to 150: the overall difference and its check.\<close>

definition overallDifferencePercentage :: "Coverage \<Rightarrow> Coverage option \<Rightarrow> number option" where
  "overallDifferencePercentage headCoverage baseCoverage =
     (case baseCoverage of
        Some base \<Rightarrow>
          Some (roundPercentage (Coverage.coverage headCoverage - Coverage.coverage base))
      | None \<Rightarrow> None)"

definition check_overall_difference :: "Inputs \<Rightarrow> number option \<Rightarrow> state \<Rightarrow> state" where
  "check_overall_difference inp overallDiff s =
     (case overallDiff of
        None \<Rightarrow> s
      | Some d \<Rightarrow>
          if failOnNegativeOverallDifference inp \<and> d < 0
          then setFailed [Str ''Coverage dropped by '', Num d, Str ''%''] s
          else s)"

text \<open>Lines 152 to 186: the summary, block by block.\<close>

definition add_badge :: "Inputs \<Rightarrow> Coverage \<Rightarrow> state \<Rightarrow> state" where
  "add_badge inp headCoverage s =
     (if badge inp
      then add_block
             (Image
                (Badge ''Code Coverage'' (Some (Coverage.coverage headCoverage))
                   (colorizeBadgeByThreshold (Some (Coverage.coverage headCoverage))
                      (Some (fileCoverageErrorMin inp)) (Some (fileCoverageWarningMax inp)))
                   ''flat'')
                ''Code Coverage'')
             s
      else s)"

definition add_overall ::
  "Inputs \<Rightarrow> Coverage \<Rightarrow> Coverage option \<Rightarrow> number option \<Rightarrow> state \<Rightarrow> state" where
  "add_overall inp headCoverage baseCoverage overallDiff s =
     (if reportOverallCoverage inp
      then add_block Break
             (add_block
                (RawTable
                   (generateOverallCoverageReport (Coverage.coverage headCoverage)
                      (map_option Coverage.coverage baseCoverage) overallDiff
                      (fileCoverageErrorMin inp) (fileCoverageWarningMax inp)))
                (add_block Break s))
      else s)"

definition add_package ::
  "Inputs \<Rightarrow> Coverage \<Rightarrow> Coverage option \<Rightarrow> cell list list \<Rightarrow> state \<Rightarrow> state" where
  "add_package inp headCoverage baseCoverage rows s =
     (if reportPackageCoverage inp
      then add_block
             (RawText
                [Str ''<i>Minimum allowed coverage is</i> <code>'',
                 Num (overallCoverageFailThreshold inp),
                 Str ''%</code>, this run produced</i> <code>'',
                 Num (Coverage.coverage headCoverage), Str ''%</code>''])
             (add_block Break
                (add_block (Table (generatePackageCoverageReport baseCoverage rows)) s))
      else s)"

text \<open>
  Lines 188 to 195: the report file, the two outputs and the job summary.
  \<open>summary.write()\<close> publishes the buffer and empties it.
\<close>

definition write_results :: "env \<Rightarrow> Inputs \<Rightarrow> Coverage \<Rightarrow> state \<Rightarrow> unit result \<times> state" where
  "write_results e inp headCoverage s =
     (let s1 = info [Str ''Writing results to '', Str (markdownFilename inp), Str ''.md''] s
      in (case writeFile e (markdownFilename inp @ ''.md'') (summary s1) of
            Inl err \<Rightarrow> (Inl err, s1)
          | Inr u \<Rightarrow>
              (let s2 = s1\<lparr>written := written s1 @ [(markdownFilename inp @ ''.md'', summary s1)]\<rparr>;
                   s3 = setOutput ''file'' (OutStr (markdownFilename inp @ ''.md'')) s2;
                   s4 = setOutput ''coverage'' (OutNum (Coverage.coverage headCoverage)) s3;
                   s5 = info [Str ''Writing job summary''] s4
               in (case summary_write e (summary s5) of
                     Inl err \<Rightarrow> (Inl err, s5)
                   | Inr u \<Rightarrow>
                       (Inr (), s5\<lparr>job_summary := job_summary s5 @ [summary s5],
                                  summary := []\<rparr>)))))"

definition generateMarkdown ::
  "env \<Rightarrow> Coverage \<Rightarrow> Coverage option \<Rightarrow> state \<Rightarrow> unit result \<times> state" where
  "generateMarkdown e headCoverage baseCoverage s =
     (let inp = getInputs e
      in (case map_rows (file_row inp headCoverage baseCoverage) (files headCoverage) s of
            (Inl err, s1) \<Rightarrow> (Inl err, s1)
          | (Inr rows, s1) \<Rightarrow>
              (let s2 = check_threshold inp headCoverage s1;
                   overallDiff = overallDifferencePercentage headCoverage baseCoverage;
                   s3 = check_overall_difference inp overallDiff s2;
                   s4 = add_block (Heading ''Code Coverage Report'') s3;
                   s5 = add_badge inp headCoverage s4;
                   s6 = add_overall inp headCoverage baseCoverage overallDiff s5;
                   s7 = add_package inp headCoverage baseCoverage rows s6
               in write_results e inp headCoverage s7)))"

subsection \<open>run\<close>

text \<open>\<open>const {NAME = ''} = process.env\<close>: the variable, or the empty string when unset.\<close>

definition env_or_empty :: "env \<Rightarrow> string \<Rightarrow> string" where
  "env_or_empty e name = (case process_env e name of None \<Rightarrow> [] | Some v \<Rightarrow> v)"

definition pull_request :: "env \<Rightarrow> string \<Rightarrow> state \<Rightarrow> unit result \<times> state" where
  "pull_request e fname s =
     (let base_ref = env_or_empty e ''GITHUB_BASE_REF''
      in (case downloadArtifacts e base_ref of
            Inl err \<Rightarrow> (Inl err, s)
          | Inr artifactPath \<Rightarrow>
              (case (case artifactPath of
                       Some p \<Rightarrow> parseCoverage e (path_join e p fname)
                     | None \<Rightarrow> Inr None) of
                 Inl err \<Rightarrow> (Inl err, s)
               | Inr baseCoverage \<Rightarrow>
                   (case parseCoverage e fname of
                      Inl err \<Rightarrow> (Inl err, s)
                    | Inr None \<Rightarrow> (Inr (), setFailed [Str ''Unable to process '', Str fname] s)
                    | Inr (Some headCoverage) \<Rightarrow>
                        (case baseCoverage of
                           None \<Rightarrow>
                             generateMarkdown e headCoverage None
                               (warning
                                  [Str base_ref, Str '' is missing '', Str fname,
                                   Str ''. See documentation on how to add this'']
                                  s)
                         | Some base \<Rightarrow> generateMarkdown e headCoverage (Some base) s)))))"

definition upload :: "env \<Rightarrow> string \<Rightarrow> state \<Rightarrow> unit result \<times> state" where
  "upload e fname s =
     (let ref_name = env_or_empty e ''GITHUB_REF_NAME'';
          s1 = info [Str ''Uploading '', Str fname] s
      in (case uploadArtifacts e [fname] ref_name of
            Inl err \<Rightarrow> (Inl err, s1)
          | Inr u \<Rightarrow>
              (Inr (), info [Str ''Complete''] (s1\<lparr>uploaded := uploaded s1 @ [([fname], ref_name)]\<rparr>))))"

definition run_body :: "env \<Rightarrow> state \<Rightarrow> unit result \<times> state" where
  "run_body e s =
     (let fname = getInput e ''filename''
      in (case checkFileExists e fname of
            Inl err \<Rightarrow> (Inl err, s)
          | Inr exists \<Rightarrow>
              if \<not> exists then (Inr (), setFailed [Str ''Unable to access '', Str fname] s)
              else
                (let event = process_env e ''GITHUB_EVENT_NAME''
                 in if event = Some ''pull_request'' then pull_request e fname s
                    else if event = Some ''push'' \<or> event = Some ''schedule''
                            \<or> event = Some ''workflow_dispatch''
                    then upload e fname s
                    else (Inr (), s))))"

text \<open>The \<open>try\<close>/\<open>catch\<close> around the body: a throw becomes \<open>core.setFailed(err.message)\<close>.\<close>

definition run :: "env \<Rightarrow> state" where
  "run e =
     (case run_body e init_state of
        (Inl err, s) \<Rightarrow> setFailed [Str err] s
      | (Inr u, s) \<Rightarrow> s)"

section \<open>Example inputs\<close>

definition inputs_ex :: Inputs where
  "inputs_ex = \<lparr>token = ''t'', filename = ''cov.xml'', badge = True,
     overallCoverageFailThreshold = 50, fileCoverageErrorMin = 50,
     fileCoverageWarningMax = 80, failOnNegativeDifference = True,
     markdownFilename = ''code-coverage-results'', artifactDownloadWorkflowNames = None,
     artifactName = ''coverage'', reportOverallCoverage = True, reportPackageCoverage = True,
     failOnNegativeOverallDifference = True\<rparr>"

definition env_ex :: "Inputs \<Rightarrow> string option \<Rightarrow> Coverage option \<Rightarrow> Coverage option \<Rightarrow> env" where
  "env_ex inp event headCoverage baseCoverage =
     \<lparr>getInput = (\<lambda>name. if name = ''filename'' then ''cov.xml'' else []),
      process_env = (\<lambda>name.
        if name = ''GITHUB_EVENT_NAME'' then event
        else if name = ''GITHUB_BASE_REF'' then Some ''main''
        else if name = ''GITHUB_REF_NAME'' then Some ''feature''
        else None),
      getInputs = inp,
      checkFileExists = (\<lambda>p. Inr (p = ''cov.xml'')),
      downloadArtifacts = (\<lambda>tag. Inr (if baseCoverage = None then None else Some ''artifacts'')),
      parseCoverage = (\<lambda>p. Inr (if p = ''cov.xml'' then headCoverage else baseCoverage)),
      uploadArtifacts = (\<lambda>paths tag. Inr ()),
      path_join = (\<lambda>a b. a @ ''/'' @ b),
      writeFile = (\<lambda>p doc. Inr ()),
      summary_write = (\<lambda>doc. Inr ())\<rparr>"

definition file_ex :: "string \<Rightarrow> number \<Rightarrow> CoverageFile" where
  "file_ex name pct = \<lparr>relative = name, absolute = ''/repo/'' @ name, coverage = pct\<rparr>"

definition head_ex :: Coverage where
  "head_ex = \<lparr>files = [(''h1'', file_ex ''a.ts'' 60), (''h2'', file_ex ''b.ts'' 30),
                       (''h3'', file_ex ''c.ts'' 90), (''h4'', file_ex ''d.ts'' 50)],
     coverage = 70, timestamp = 2, basePath = ''/repo''\<rparr>"

definition base_ex :: Coverage where
  "base_ex = \<lparr>files = [(''h1'', file_ex ''a.ts'' 80), (''h2'', file_ex ''b.ts'' 45),
                       (''h4'', file_ex ''d.ts'' 0)],
     coverage = 75, timestamp = 1, basePath = ''/repo''\<rparr>"

definition head_cx :: Coverage where
  "head_cx = \<lparr>files = [], coverage = 70, timestamp = 2, basePath = ''/repo''\<rparr>"

definition base_cx :: Coverage where
  "base_cx = \<lparr>files = [], coverage = 70001 / 1000, timestamp = 1, basePath = ''/repo''\<rparr>"

definition head_low :: Coverage where
  "head_low = \<lparr>files = [(''h1'', file_ex ''a.ts'' 40)], coverage = 40, timestamp = 2,
     basePath = ''/repo''\<rparr>"

definition inputs_low :: Inputs where
  "inputs_low = inputs_ex\<lparr>fileCoverageErrorMin := 2, fileCoverageWarningMax := 60\<rparr>"

definition base_zero :: Coverage where
  "base_zero = \<lparr>files = [(''h4'', file_ex ''d.ts'' 0)], coverage = 0, timestamp = 1,
     basePath = ''/repo''\<rparr>"

section \<open>What the operations leave untouched, and the loop over the files\<close>

lemma failed_setFailed: "failed (setFailed m s) = failed s @ [m]"
  by (simp add: setFailed_def)

lemma failed_add_block: "failed (add_block b s) = failed s"
  by (simp add: add_block_def)

lemma failed_info: "failed (info m s) = failed s"
  by (simp add: info_def)

lemma failed_setOutput: "failed (setOutput k v s) = failed s"
  by (simp add: setOutput_def)

lemma failed_add_badge: "failed (add_badge inp h s) = failed s"
  by (simp add: add_badge_def failed_add_block)

lemma failed_add_overall: "failed (add_overall inp h b d s) = failed s"
  by (simp add: add_overall_def failed_add_block)

lemma failed_add_package: "failed (add_package inp h b rows s) = failed s"
  by (simp add: add_package_def failed_add_block)

lemma failed_write_results: "failed (snd (write_results e inp h s)) = failed s"
  by (simp add: write_results_def Let_def failed_info failed_setOutput split: sum.splits)

lemma at_key_member:
  "(hash, file) \<in> set fs \<Longrightarrow> \<exists>f. at_key fs hash = Some f"
  unfolding at_key_def
  by (metis map_of_eq_None_iff not_None_eq fst_conv image_eqI)

lemma at_key_wf:
  "wf_Files fs \<Longrightarrow> (hash, file) \<in> set fs \<Longrightarrow> at_key fs hash = Some file"
  by (simp add: at_key_def wf_Files_def)

lemma file_row_total:
  assumes "(hash, file) \<in> set (files headCoverage)"
  shows "\<exists>row. fst (file_row inp headCoverage baseCoverage (hash, file) s) = Inr row"
proof -
  from assms obtain hf where "at_key (files headCoverage) hash = Some hf"
    using at_key_member by blast
  then show ?thesis
    by (simp add: file_row_def Let_def split: option.splits)
qed

lemma file_row_state:
  "file_row inp headCoverage baseCoverage x s = (r, s') \<Longrightarrow>
     s' = s \<or> (\<exists>rel d. s' = setFailed [Str rel, Str '' coverage difference was '', Num d, Str ''%''] s)"
  by (cases x) (auto simp: file_row_def Let_def split: option.splits if_splits)


lemma file_row_state4:
  assumes "file_row inp headCoverage baseCoverage x s = (r, s')"
  shows "\<exists>ms. s' = s\<lparr>failed := failed s @ ms\<rparr> \<and> (\<forall>m\<in>set ms. length m = 4)"
proof -
  from file_row_state [OF assms] show ?thesis
  proof
    assume "s' = s"
    then have "s' = s\<lparr>failed := failed s @ []\<rparr> \<and> (\<forall>m\<in>set ([]::message list). length m = 4)"
      by simp
    then show ?thesis by blast
  next
    assume "\<exists>rel d. s' = setFailed [Str rel, Str '' coverage difference was '', Num d, Str ''%''] s"
    then obtain rel d where
      "s' = setFailed [Str rel, Str '' coverage difference was '', Num d, Str ''%''] s" by blast
    then have "s' = s\<lparr>failed := failed s @ [[Str rel, Str '' coverage difference was '', Num d, Str ''%'']]\<rparr>
        \<and> (\<forall>m\<in>set [[Str rel, Str '' coverage difference was '', Num d, Str ''%'']]. length m = 4)"
      by (simp add: setFailed_def)
    then show ?thesis by blast
  qed
qed

lemma map_rows_state:
  "map_rows (file_row inp headCoverage baseCoverage) es s = (r, s') \<Longrightarrow>
     \<exists>ms. s' = s\<lparr>failed := failed s @ ms\<rparr> \<and> (\<forall>m\<in>set ms. length m = 4)"
proof (induction es arbitrary: s r s')
  case Nil
  then have "s' = s\<lparr>failed := failed s @ []\<rparr> \<and> (\<forall>m\<in>set ([]::message list). length m = 4)"
    by simp
  then show ?case by blast
next
  case (Cons x xs)
  obtain r1 s1 where step: "file_row inp headCoverage baseCoverage x s = (r1, s1)"
    by (cases "file_row inp headCoverage baseCoverage x s")
  from file_row_state4 [OF step] obtain ms1 where
    s1: "s1 = s\<lparr>failed := failed s @ ms1\<rparr>" and len1: "\<forall>m\<in>set ms1. length m = 4" by blast
  show ?case
  proof (cases r1)
    case (Inl err)
    with Cons.prems step have "s' = s1" by simp
    with s1 len1 show ?thesis by blast
  next
    case (Inr row)
    obtain r2 s2 where rest: "map_rows (file_row inp headCoverage baseCoverage) xs s1 = (r2, s2)"
      by (cases "map_rows (file_row inp headCoverage baseCoverage) xs s1")
    from Cons.IH [OF rest] obtain ms2 where
      s2: "s2 = s1\<lparr>failed := failed s1 @ ms2\<rparr>" and len2: "\<forall>m\<in>set ms2. length m = 4" by blast
    from Cons.prems step Inr rest have "s' = s2" by (auto split: sum.splits)
    with s1 s2 have "s' = s\<lparr>failed := failed s @ (ms1 @ ms2)\<rparr>" by simp
    moreover from len1 len2 have "\<forall>m\<in>set (ms1 @ ms2). length m = 4" by auto
    ultimately show ?thesis by blast
  qed
qed

lemma map_rows_total:
  "set es \<subseteq> set (files headCoverage) \<Longrightarrow>
     \<exists>rows. fst (map_rows (file_row inp headCoverage baseCoverage) es s) = Inr rows"
proof (induction es arbitrary: s)
  case Nil
  then show ?case by simp
next
  case (Cons x xs)
  obtain h f where x: "x = (h, f)" by (cases x)
  with Cons.prems have "(h, f) \<in> set (files headCoverage)" by simp
  from file_row_total [OF this] x obtain row where
    row: "fst (file_row inp headCoverage baseCoverage x s) = Inr row" by blast
  then obtain s1 where step: "file_row inp headCoverage baseCoverage x s = (Inr row, s1)"
    by (cases "file_row inp headCoverage baseCoverage x s") simp
  from Cons.prems have "set xs \<subseteq> set (files headCoverage)" by simp
  from Cons.IH [OF this] obtain rows where
    "fst (map_rows (file_row inp headCoverage baseCoverage) xs s1) = Inr rows" by blast
  then obtain s2 where "map_rows (file_row inp headCoverage baseCoverage) xs s1 = (Inr rows, s2)"
    by (cases "map_rows (file_row inp headCoverage baseCoverage) xs s1") simp
  with step show ?case by simp
qed

lemma map_rows_signals:
  assumes "wf_Files (files headCoverage)"
    and "failOnNegativeDifference inp"
    and "differencePercentage file (baseCoveragePercentage base hash) = Some d"
    and "d < 0"
  shows "set es \<subseteq> set (files headCoverage) \<Longrightarrow> (hash, file) \<in> set es \<Longrightarrow>
     [Str (relative file), Str '' coverage difference was '', Num d, Str ''%'']
       \<in> set (failed (snd (map_rows (file_row inp headCoverage (Some base)) es s)))"
proof (induction es arbitrary: s)
  case Nil
  then show ?case by simp
next
  case (Cons x xs)
  let ?f = "file_row inp headCoverage (Some base)"
  let ?m = "[Str (relative file), Str '' coverage difference was '', Num d, Str ''%'']"
  from Cons.prems have sub: "set xs \<subseteq> set (files headCoverage)" by simp
  from Cons.prems obtain h f where x: "x = (h, f)" and xin: "(h, f) \<in> set (files headCoverage)"
    by (cases x) auto
  from file_row_total [OF xin, of inp "Some base" s] x obtain row where
    "fst (?f x s) = Inr row" by auto
  then obtain s1 where step: "?f x s = (Inr row, s1)"
    by (cases "?f x s") simp
  from map_rows_total [OF sub, of inp "Some base" s1] obtain rows where
    "fst (map_rows ?f xs s1) = Inr rows" by blast
  then obtain s2 where rest: "map_rows ?f xs s1 = (Inr rows, s2)"
    by (cases "map_rows ?f xs s1") simp
  from step rest have whole: "snd (map_rows ?f (x # xs) s) = s2" by simp
  from map_rows_state [OF rest] obtain ms where s2: "failed s2 = failed s1 @ ms" by auto
  show ?case
  proof (cases "x = (hash, file)")
    case True
    with Cons.prems have "at_key (files headCoverage) hash = Some file"
      using at_key_wf [OF assms(1)] by simp
    with True assms(2-4) step have "s1 = setFailed ?m s"
      by (simp add: file_row_def Let_def)
    then have "?m \<in> set (failed s1)" by (simp add: setFailed_def)
    with s2 whole show ?thesis by simp
  next
    case False
    with Cons.prems have "(hash, file) \<in> set xs" by auto
    from Cons.IH [OF sub this, of s1] rest whole show ?thesis by simp
  qed
qed



lemma generateMarkdown_eq:
  "\<exists>rows s1. map_rows (file_row (getInputs e) h b) (files h) s = (Inr rows, s1) \<and>
     generateMarkdown e h b s =
       write_results e (getInputs e) h
         (add_package (getInputs e) h b rows
            (add_overall (getInputs e) h b (overallDifferencePercentage h b)
               (add_badge (getInputs e) h
                  (add_block (Heading ''Code Coverage Report'')
                     (check_overall_difference (getInputs e) (overallDifferencePercentage h b)
                        (check_threshold (getInputs e) h s1))))))"
proof -
  from map_rows_total [of "files h" h "getInputs e" b s] obtain rows where
    "fst (map_rows (file_row (getInputs e) h b) (files h) s) = Inr rows" by blast
  then obtain s1 where "map_rows (file_row (getInputs e) h b) (files h) s = (Inr rows, s1)"
    by (cases "map_rows (file_row (getInputs e) h b) (files h) s") simp
  then show ?thesis by (simp add: generateMarkdown_def Let_def)
qed

lemma generateMarkdown_failed:
  "\<exists>rows s1. map_rows (file_row (getInputs e) h b) (files h) s = (Inr rows, s1) \<and>
     failed (snd (generateMarkdown e h b s)) =
       failed (check_overall_difference (getInputs e) (overallDifferencePercentage h b)
                 (check_threshold (getInputs e) h s1))"
proof -
  from generateMarkdown_eq [of e h b s] obtain rows s1 where
    m: "map_rows (file_row (getInputs e) h b) (files h) s = (Inr rows, s1)" and
    g: "generateMarkdown e h b s =
       write_results e (getInputs e) h
         (add_package (getInputs e) h b rows
            (add_overall (getInputs e) h b (overallDifferencePercentage h b)
               (add_badge (getInputs e) h
                  (add_block (Heading ''Code Coverage Report'')
                     (check_overall_difference (getInputs e) (overallDifferencePercentage h b)
                        (check_threshold (getInputs e) h s1))))))" by blast
  from g have "failed (snd (generateMarkdown e h b s)) =
       failed (check_overall_difference (getInputs e) (overallDifferencePercentage h b)
                 (check_threshold (getInputs e) h s1))"
    by (simp add: failed_write_results failed_add_package failed_add_overall failed_add_badge
        failed_add_block)
  with m show ?thesis by blast
qed

lemma failed_check_overall_difference_mono:
  "set (failed s) \<subseteq> set (failed (check_overall_difference inp d s))"
  by (auto simp: check_overall_difference_def setFailed_def split: option.splits)

lemma failed_check_threshold_mono:
  "set (failed s) \<subseteq> set (failed (check_threshold inp h s))"
  by (auto simp: check_threshold_def setFailed_def)

lemma write_results_ok:
  assumes "\<And>doc. writeFile e (markdownFilename inp @ ''.md'') doc = Inr ()"
    and "\<And>doc. summary_write e doc = Inr ()"
  shows "write_results e inp h s =
     (Inr (),
      s\<lparr>infos := infos s @ [[Str ''Writing results to '', Str (markdownFilename inp), Str ''.md''],
                               [Str ''Writing job summary'']],
        written := written s @ [(markdownFilename inp @ ''.md'', summary s)],
        outputs := outputs s @ [(''file'', OutStr (markdownFilename inp @ ''.md'')),
                                (''coverage'', OutNum (Coverage.coverage h))],
        job_summary := job_summary s @ [summary s],
        summary := []\<rparr>)"
  using assms by (simp add: write_results_def Let_def info_def setOutput_def)

lemma outputs_add_block: "outputs (add_block b s) = outputs s"
  by (simp add: add_block_def)
lemma written_add_block: "written (add_block b s) = written s"
  by (simp add: add_block_def)
lemma job_summary_add_block: "job_summary (add_block b s) = job_summary s"
  by (simp add: add_block_def)

lemma untouched_setFailed:
  "outputs (setFailed m s) = outputs s" "written (setFailed m s) = written s"
  "job_summary (setFailed m s) = job_summary s" "summary (setFailed m s) = summary s"
  by (simp_all add: setFailed_def)

lemma untouched_checks:
  "outputs (check_threshold inp h s) = outputs s"
  "written (check_threshold inp h s) = written s"
  "job_summary (check_threshold inp h s) = job_summary s"
  "summary (check_threshold inp h s) = summary s"
  "outputs (check_overall_difference inp d s) = outputs s"
  "written (check_overall_difference inp d s) = written s"
  "job_summary (check_overall_difference inp d s) = job_summary s"
  "summary (check_overall_difference inp d s) = summary s"
  by (simp_all add: check_threshold_def check_overall_difference_def untouched_setFailed
      split: option.splits)

lemma untouched_adds:
  "outputs (add_badge inp h s) = outputs s"
  "written (add_badge inp h s) = written s"
  "job_summary (add_badge inp h s) = job_summary s"
  "outputs (add_overall inp h b d s) = outputs s"
  "written (add_overall inp h b d s) = written s"
  "job_summary (add_overall inp h b d s) = job_summary s"
  "outputs (add_package inp h b rows s) = outputs s"
  "written (add_package inp h b rows s) = written s"
  "job_summary (add_package inp h b rows s) = job_summary s"
  by (simp_all add: add_badge_def add_overall_def add_package_def add_block_def)

lemma difference_absent_key:
  assumes "at_key (files baseCoverage) hash = None"
  shows "baseCoveragePercentage baseCoverage hash = None"
    and "differencePercentage cf (baseCoveragePercentage baseCoverage hash) = None"
    and "file_row inp headCoverage (Some baseCoverage) (hash, cf) s =
       (Inr [Plain (relative cf),
             Pct Neutral None,
             colorizePercentageByThreshold (Some (CoverageFile.coverage cf))
               (Some (fileCoverageWarningMax inp)) (Some (fileCoverageErrorMin inp)),
             Pct Neutral None], s)"
  using assms
  by (simp_all add: baseCoveragePercentage_def differencePercentage_def truthy_def file_row_def
      colorizePercentageByThreshold_def classify_def)

lemma difference_present_nonzero:
  assumes "at_key (files baseCoverage) hash = Some bf" and "CoverageFile.coverage bf \<noteq> 0"
  shows "differencePercentage cf (baseCoveragePercentage baseCoverage hash) =
      Some (roundPercentage (CoverageFile.coverage cf - CoverageFile.coverage bf))"
  using assms by (simp add: baseCoveragePercentage_def differencePercentage_def truthy_def)

lemma summary_add_block: "summary (add_block b s) = summary s @ [b]"
  by (simp add: add_block_def)

lemma summary_add_badge:
  "summary (add_badge inp h s) =
     summary s @
       (if badge inp
        then [Image
                (Badge ''Code Coverage'' (Some (Coverage.coverage h))
                   (colorizeBadgeByThreshold (Some (Coverage.coverage h))
                      (Some (fileCoverageErrorMin inp)) (Some (fileCoverageWarningMax inp)))
                   ''flat'')
                ''Code Coverage'']
        else [])"
  by (simp add: add_badge_def summary_add_block)

lemma summary_add_overall:
  "summary (add_overall inp h b d s) =
     summary s @
       (if reportOverallCoverage inp
        then [Break,
              RawTable
                (generateOverallCoverageReport (Coverage.coverage h)
                   (map_option Coverage.coverage b) d
                   (fileCoverageErrorMin inp) (fileCoverageWarningMax inp)),
              Break]
        else [])"
  by (simp add: add_overall_def summary_add_block)

lemma summary_add_package:
  "summary (add_package inp h b rows s) =
     summary s @
       (if reportPackageCoverage inp
        then [Table (generatePackageCoverageReport b rows), Break,
              RawText
                [Str ''<i>Minimum allowed coverage is</i> <code>'',
                 Num (overallCoverageFailThreshold inp),
                 Str ''%</code>, this run produced</i> <code>'',
                 Num (Coverage.coverage h), Str ''%</code>'']]
        else [])"
  by (simp add: add_package_def summary_add_block)

lemma run_pull_request_with_baseline:
  assumes "checkFileExists e (getInput e ''filename'') = Inr True"
    and "process_env e ''GITHUB_EVENT_NAME'' = Some ''pull_request''"
    and "downloadArtifacts e (env_or_empty e ''GITHUB_BASE_REF'') = Inr (Some p)"
    and "parseCoverage e (path_join e p (getInput e ''filename'')) = Inr (Some baseCoverage)"
    and "parseCoverage e (getInput e ''filename'') = Inr (Some headCoverage)"
  shows "run e =
     (case generateMarkdown e headCoverage (Some baseCoverage) init_state of
        (Inl err, s) \<Rightarrow> setFailed [Str err] s
      | (Inr u, s) \<Rightarrow> s)"
  using assms by (simp add: run_def run_body_def pull_request_def Let_def)

lemma run_pull_request_without_baseline:
  assumes "checkFileExists e (getInput e ''filename'') = Inr True"
    and "process_env e ''GITHUB_EVENT_NAME'' = Some ''pull_request''"
    and "downloadArtifacts e (env_or_empty e ''GITHUB_BASE_REF'') = Inr None"
    and "parseCoverage e (getInput e ''filename'') = Inr (Some headCoverage)"
  shows "run e =
     (case generateMarkdown e headCoverage None
             (warning
                [Str (env_or_empty e ''GITHUB_BASE_REF''), Str '' is missing '',
                 Str (getInput e ''filename''),
                 Str ''. See documentation on how to add this'']
                init_state) of
        (Inl err, s) \<Rightarrow> setFailed [Str err] s
      | (Inr u, s) \<Rightarrow> s)"
  using assms by (simp add: run_def run_body_def pull_request_def Let_def)

section \<open>The claims\<close>

text \<open>
  C1. With \<open>failOnNegativeDifference\<close> set and a baseline given, \<open>generateMarkdown\<close>
  signals, for every file of the head snapshot whose computed difference is negative, a
  failure that names the file and the difference; each file is checked on its own, so
  several failures can be signalled in one run. The run is not aborted: once the report
  file and the job summary can be written, \<open>generateMarkdown\<close> returns normally, the
  report file and the job summary hold the same document, and both outputs are set.
\<close>

theorem file_regressions_signalled_and_report_written:
  assumes toggle: "failOnNegativeDifference (getInputs e)"
    and wf: "wf_Files (files headCoverage)"
    and wr: "\<And>doc. writeFile e (markdownFilename (getInputs e) @ ''.md'') doc = Inr ()"
    and sw: "\<And>doc. summary_write e doc = Inr ()"
  shows "\<exists>s' doc. generateMarkdown e headCoverage (Some baseCoverage) s = (Inr (), s') \<and>
     (\<forall>(hash, cf) \<in> set (files headCoverage). \<forall>d.
        differencePercentage cf (baseCoveragePercentage baseCoverage hash) = Some d \<longrightarrow> d < 0 \<longrightarrow>
        [Str (relative cf), Str '' coverage difference was '', Num d, Str ''%'']
          \<in> set (failed s')) \<and>
     written s' = written s @ [(markdownFilename (getInputs e) @ ''.md'', doc)] \<and>
     job_summary s' = job_summary s @ [doc] \<and>
     outputs s' = outputs s @ [(''file'', OutStr (markdownFilename (getInputs e) @ ''.md'')),
                               (''coverage'', OutNum (Coverage.coverage headCoverage))]"
proof -
  let ?inp = "getInputs e"
  let ?b = "Some baseCoverage"
  let ?od = "overallDifferencePercentage headCoverage ?b"
  from generateMarkdown_eq [of e headCoverage ?b s] obtain rows s1 where
    m: "map_rows (file_row ?inp headCoverage ?b) (files headCoverage) s = (Inr rows, s1)" and
    g: "generateMarkdown e headCoverage ?b s =
       write_results e ?inp headCoverage
         (add_package ?inp headCoverage ?b rows
            (add_overall ?inp headCoverage ?b ?od
               (add_badge ?inp headCoverage
                  (add_block (Heading ''Code Coverage Report'')
                     (check_overall_difference ?inp ?od
                        (check_threshold ?inp headCoverage s1))))))" by blast
  let ?s7 = "add_package ?inp headCoverage ?b rows
            (add_overall ?inp headCoverage ?b ?od
               (add_badge ?inp headCoverage
                  (add_block (Heading ''Code Coverage Report'')
                     (check_overall_difference ?inp ?od
                        (check_threshold ?inp headCoverage s1)))))"
  let ?s' = "snd (generateMarkdown e headCoverage ?b s)"
  from map_rows_state [OF m] obtain ms where s1: "s1 = s\<lparr>failed := failed s @ ms\<rparr>" by blast
  have fin: "generateMarkdown e headCoverage ?b s = (Inr (), ?s')"
    using g write_results_ok [OF wr sw, of headCoverage ?s7] by simp
  have f7: "failed ?s' = failed (check_overall_difference ?inp ?od
                        (check_threshold ?inp headCoverage s1))"
    using g by (simp add: failed_write_results failed_add_package failed_add_overall
        failed_add_badge failed_add_block)
  have sig: "[Str (relative cf), Str '' coverage difference was '', Num d, Str ''%'']
          \<in> set (failed ?s')"
    if "(hash, cf) \<in> set (files headCoverage)"
      and "differencePercentage cf (baseCoveragePercentage baseCoverage hash) = Some d"
      and "d < 0" for hash cf d
  proof -
    from map_rows_signals [OF wf toggle that(2) that(3) subset_refl that(1), of s] m
    have "[Str (relative cf), Str '' coverage difference was '', Num d, Str ''%'']
          \<in> set (failed s1)" by simp
    then have "[Str (relative cf), Str '' coverage difference was '', Num d, Str ''%'']
          \<in> set (failed (check_threshold ?inp headCoverage s1))"
      using failed_check_threshold_mono [of s1 ?inp headCoverage] by (rule rev_subsetD)
    then have "[Str (relative cf), Str '' coverage difference was '', Num d, Str ''%'']
          \<in> set (failed (check_overall_difference ?inp ?od
                        (check_threshold ?inp headCoverage s1)))"
      using failed_check_overall_difference_mono
        [of "check_threshold ?inp headCoverage s1" ?inp ?od] by (rule rev_subsetD)
    with f7 show ?thesis by simp
  qed
  have w: "written ?s' = written s @ [(markdownFilename ?inp @ ''.md'', summary ?s7)]"
    using g write_results_ok [OF wr sw, of headCoverage ?s7] s1
    by (simp add: untouched_adds untouched_checks outputs_add_block written_add_block
        job_summary_add_block)
  have j: "job_summary ?s' = job_summary s @ [summary ?s7]"
    using g write_results_ok [OF wr sw, of headCoverage ?s7] s1
    by (simp add: untouched_adds untouched_checks outputs_add_block written_add_block
        job_summary_add_block)
  have out: "outputs ?s' = outputs s @ [(''file'', OutStr (markdownFilename ?inp @ ''.md'')),
                               (''coverage'', OutNum (Coverage.coverage headCoverage))]"
    using g write_results_ok [OF wr sw, of headCoverage ?s7] s1
    by (simp add: untouched_adds untouched_checks outputs_add_block written_add_block
        job_summary_add_block)
  from sig have all: "\<forall>(hash, cf) \<in> set (files headCoverage). \<forall>d.
        differencePercentage cf (baseCoveragePercentage baseCoverage hash) = Some d \<longrightarrow> d < 0 \<longrightarrow>
        [Str (relative cf), Str '' coverage difference was '', Num d, Str ''%'']
          \<in> set (failed ?s')" by blast
  show ?thesis
    apply (rule exI [of _ ?s'])
    apply (rule exI [of _ "summary ?s7"])
    using fin all w j out apply (intro conjI)
        apply assumption+
    done
qed

text \<open>
  C1, at a concrete run: \<open>a.ts\<close> falls from 80 to 60 and \<open>b.ts\<close> from 45 to 30; both
  failures are signalled and the report and the outputs are produced.
\<close>

theorem file_regressions_signalled_and_report_written_witness:
  "failOnNegativeDifference (getInputs (env_ex inputs_ex None None None)) \<and>
   wf_Files (files head_ex) \<and>
   (\<exists>s' doc. generateMarkdown (env_ex inputs_ex None None None) head_ex (Some base_ex) init_state
        = (Inr (), s') \<and>
      [Str ''a.ts'', Str '' coverage difference was '', Num (- 20), Str ''%''] \<in> set (failed s') \<and>
      [Str ''b.ts'', Str '' coverage difference was '', Num (- 15), Str ''%''] \<in> set (failed s') \<and>
      written s' = [(''code-coverage-results.md'', doc)] \<and>
      job_summary s' = [doc] \<and>
      outputs s' = [(''file'', OutStr ''code-coverage-results.md''), (''coverage'', OutNum 70)])"
proof -
  let ?e = "env_ex inputs_ex None None None"
  have t: "failOnNegativeDifference (getInputs ?e)"
    by (simp add: env_ex_def inputs_ex_def)
  have w: "wf_Files (files head_ex)"
    by (simp add: wf_Files_def head_ex_def)
  have wr: "\<And>doc. writeFile ?e (markdownFilename (getInputs ?e) @ ''.md'') doc = Inr ()"
    by (simp add: env_ex_def)
  have sw: "\<And>doc. summary_write ?e doc = Inr ()"
    by (simp add: env_ex_def)
  have da: "differencePercentage (file_ex ''a.ts'' 60) (baseCoveragePercentage base_ex ''h1'')
      = Some (- 20)"
    by code_simp
  have db: "differencePercentage (file_ex ''b.ts'' 30) (baseCoveragePercentage base_ex ''h2'')
      = Some (- 15)"
    by code_simp
  from file_regressions_signalled_and_report_written [OF t w wr sw, of base_ex init_state] obtain s' doc where
    g: "generateMarkdown ?e head_ex (Some base_ex) init_state = (Inr (), s')" and
    a: "\<forall>(hash, cf) \<in> set (files head_ex). \<forall>d.
        differencePercentage cf (baseCoveragePercentage base_ex hash) = Some d \<longrightarrow> d < 0 \<longrightarrow>
        [Str (relative cf), Str '' coverage difference was '', Num d, Str ''%'']
          \<in> set (failed s')" and
    wo: "written s' = written init_state @ [(markdownFilename (getInputs ?e) @ ''.md'', doc)]" and
    j: "job_summary s' = job_summary init_state @ [doc]" and
    out: "outputs s' = outputs init_state @
       [(''file'', OutStr (markdownFilename (getInputs ?e) @ ''.md'')),
        (''coverage'', OutNum (Coverage.coverage head_ex))]"
    by blast
  have ina: "(''h1'', file_ex ''a.ts'' 60) \<in> set (files head_ex)"
    and inb: "(''h2'', file_ex ''b.ts'' 30) \<in> set (files head_ex)"
    by (simp_all add: head_ex_def)
  from a ina da have ma:
    "[Str ''a.ts'', Str '' coverage difference was '', Num (- 20), Str ''%''] \<in> set (failed s')"
    by (fastforce simp: file_ex_def)
  from a inb db have mb:
    "[Str ''b.ts'', Str '' coverage difference was '', Num (- 15), Str ''%''] \<in> set (failed s')"
    by (fastforce simp: file_ex_def)
  from wo have wo': "written s' = [(''code-coverage-results.md'', doc)]"
    by (simp add: init_state_def env_ex_def inputs_ex_def)
  from j have j': "job_summary s' = [doc]" by (simp add: init_state_def)
  from out have out':
    "outputs s' = [(''file'', OutStr ''code-coverage-results.md''), (''coverage'', OutNum 70)]"
    by (simp add: init_state_def env_ex_def inputs_ex_def head_ex_def)
  from t w g ma mb wo' j' out' show ?thesis by blast
qed

text \<open>
  C2, as amended. With \<open>failOnNegativeOverallDifference\<close> set and a baseline given, the
  failure \<open>Coverage dropped by d%\<close> is signalled exactly when the overall difference
  rounded to 2 decimal places, \<open>d = roundPercentage (headOverall - baseOverall)\<close>, is
  negative, and no other magnitude is ever reported. (The call starts with no such failure
  signalled, as it does in \<open>run\<close>.)
\<close>

theorem overall_regression_signalled_iff_rounded_difference_negative:
  assumes toggle: "failOnNegativeOverallDifference (getInputs e)"
    and fresh: "\<forall>x. [Str ''Coverage dropped by '', Num x, Str ''%''] \<notin> set (failed s)"
  shows "([Str ''Coverage dropped by '',
           Num (roundPercentage (Coverage.coverage headCoverage - Coverage.coverage baseCoverage)),
           Str ''%'']
            \<in> set (failed (snd (generateMarkdown e headCoverage (Some baseCoverage) s)))
          \<longleftrightarrow> roundPercentage (Coverage.coverage headCoverage - Coverage.coverage baseCoverage) < 0)
       \<and> (\<forall>x. [Str ''Coverage dropped by '', Num x, Str ''%'']
                 \<in> set (failed (snd (generateMarkdown e headCoverage (Some baseCoverage) s)))
             \<longrightarrow> x = roundPercentage (Coverage.coverage headCoverage - Coverage.coverage baseCoverage))"
proof -
  let ?d = "roundPercentage (Coverage.coverage headCoverage - Coverage.coverage baseCoverage)"
  let ?inp = "getInputs e"
  from generateMarkdown_failed [of e headCoverage "Some baseCoverage" s] obtain rows s1 where
    m: "map_rows (file_row ?inp headCoverage (Some baseCoverage)) (files headCoverage) s
          = (Inr rows, s1)" and
    f: "failed (snd (generateMarkdown e headCoverage (Some baseCoverage) s)) =
       failed (check_overall_difference ?inp
                 (overallDifferencePercentage headCoverage (Some baseCoverage))
                 (check_threshold ?inp headCoverage s1))" by blast
  from map_rows_state [OF m] obtain ms where
    s1: "s1 = s\<lparr>failed := failed s @ ms\<rparr>" and len: "\<forall>m\<in>set ms. length m = 4" by blast
  have nots1: "[Str ''Coverage dropped by '', Num x, Str ''%''] \<notin> set (failed s1)" for x
    using fresh len s1 by auto
  have nott: "[Str ''Coverage dropped by '', Num x, Str ''%'']
      \<notin> set (failed (check_threshold ?inp headCoverage s1))" for x
    using nots1 by (simp add: check_threshold_def setFailed_def)
  have od: "overallDifferencePercentage headCoverage (Some baseCoverage) = Some ?d"
    by (simp add: overallDifferencePercentage_def)
  have ff: "failed (snd (generateMarkdown e headCoverage (Some baseCoverage) s)) =
      failed (check_threshold ?inp headCoverage s1)
        @ (if ?d < 0 then [[Str ''Coverage dropped by '', Num ?d, Str ''%'']] else [])"
    using f od toggle by (simp add: check_overall_difference_def setFailed_def)
  show ?thesis using ff nott by auto
qed

text \<open>
  C2, at the scenario of the spec: head overall 70 against base overall 75 gives the
  difference -5, and the failure is signalled.
\<close>

theorem overall_regression_signalled_iff_rounded_difference_negative_witness:
  "failOnNegativeOverallDifference (getInputs (env_ex inputs_ex None None None)) \<and>
   (\<forall>x. [Str ''Coverage dropped by '', Num x, Str ''%''] \<notin> set (failed init_state)) \<and>
   roundPercentage (Coverage.coverage head_ex - Coverage.coverage base_ex) = - 5 \<and>
   [Str ''Coverage dropped by '', Num (- 5), Str ''%'']
     \<in> set (failed (snd (generateMarkdown (env_ex inputs_ex None None None) head_ex (Some base_ex)
          init_state)))"
proof -
  have t: "failOnNegativeOverallDifference (getInputs (env_ex inputs_ex None None None))"
    by (simp add: env_ex_def inputs_ex_def)
  have fr: "\<forall>x. [Str ''Coverage dropped by '', Num x, Str ''%''] \<notin> set (failed init_state)"
    by (simp add: init_state_def)
  have r: "roundPercentage (Coverage.coverage head_ex - Coverage.coverage base_ex) = - 5"
    by code_simp
  from overall_regression_signalled_iff_rounded_difference_negative [OF t fr, of head_ex base_ex]
    t fr r
  show ?thesis by simp
qed

text \<open>
  C2 as stated fails: head overall 70 against base overall 70.001 is a negative
  difference, the toggle is set, and no failure at all is signalled, because the
  difference rounds to 0.
\<close>

theorem overall_regression_below_rounding_not_signalled:
  "failOnNegativeOverallDifference (getInputs (env_ex inputs_ex None None None)) \<and>
   Coverage.coverage head_cx - Coverage.coverage base_cx < 0 \<and>
   failed (snd (generateMarkdown (env_ex inputs_ex None None None) head_cx (Some base_cx)
      init_state)) = []"
  by code_simp

text \<open>
  C3. Whenever the head overall percentage is below \<open>overallCoverageFailThreshold\<close>,
  \<open>generateMarkdown\<close> signals the threshold failure, with a baseline or without one
  (\<open>baseCoverage\<close> is any value, None included).
\<close>

theorem below_threshold_signalled_with_or_without_baseline:
  assumes "Coverage.coverage headCoverage < overallCoverageFailThreshold (getInputs e)"
  shows "[Str ''FAIL: Overall coverage of '', Num (Coverage.coverage headCoverage),
          Str ''% below minimum threshold of '', Num (overallCoverageFailThreshold (getInputs e)),
          Str ''%'']
         \<in> set (failed (snd (generateMarkdown e headCoverage baseCoverage s)))"
proof -
  let ?m = "[Str ''FAIL: Overall coverage of '', Num (Coverage.coverage headCoverage),
          Str ''% below minimum threshold of '', Num (overallCoverageFailThreshold (getInputs e)),
          Str ''%'']"
  from generateMarkdown_failed [of e headCoverage baseCoverage s] obtain s1 where
    f: "failed (snd (generateMarkdown e headCoverage baseCoverage s)) =
       failed (check_overall_difference (getInputs e)
                 (overallDifferencePercentage headCoverage baseCoverage)
                 (check_threshold (getInputs e) headCoverage s1))" by blast
  from assms have "?m \<in> set (failed (check_threshold (getInputs e) headCoverage s1))"
    by (simp add: check_threshold_def setFailed_def)
  then have "?m \<in> set (failed (check_overall_difference (getInputs e)
                 (overallDifferencePercentage headCoverage baseCoverage)
                 (check_threshold (getInputs e) headCoverage s1)))"
    using failed_check_overall_difference_mono by (rule rev_subsetD)
  with f show ?thesis by simp
qed

text \<open>
  C3, at the example of the spec: head overall 40, threshold 50, no baseline.
\<close>

theorem below_threshold_signalled_with_or_without_baseline_witness:
  "Coverage.coverage head_low < overallCoverageFailThreshold (getInputs (env_ex inputs_ex None None None)) \<and>
   [Str ''FAIL: Overall coverage of '', Num 40, Str ''% below minimum threshold of '', Num 50,
    Str ''%'']
     \<in> set (failed (snd (generateMarkdown (env_ex inputs_ex None None None) head_low None init_state)))"
proof -
  have h: "Coverage.coverage head_low
      < overallCoverageFailThreshold (getInputs (env_ex inputs_ex None None None))"
    by (simp add: head_low_def env_ex_def inputs_ex_def)
  from below_threshold_signalled_with_or_without_baseline [OF h, of None init_state] h show ?thesis
    by (simp add: head_low_def env_ex_def inputs_ex_def)
qed

text \<open>
  C4 as stated fails for ceilings in the wrong order: with the warning ceiling 50 and the
  error ceiling 80, the percentage 60 is at least the warning ceiling and is classified
  Error, not Ok.
\<close>

theorem classify_misordered_ceilings:
  "(0::rat) \<le> 60 \<and> (60::rat) < 100 \<and> classify (Some 60) 50 80 = Error \<and>
   \<not> (classify (Some 60) 50 80 = Ok \<longleftrightarrow> (50::rat) \<le> 60)"
  by (simp add: classify_def)

text \<open>
  C4, as amended. For every percentage and every pair of ceilings the classifier returns
  Error iff \<open>p < E\<close> and Warning iff \<open>E \<le> p < W\<close>; when \<open>E \<le> W\<close> it returns Ok iff
  \<open>p \<ge> W\<close>, and \<open>p = W\<close> is Ok; when \<open>E < W\<close>, \<open>p = E\<close> is Warning; \<open>p = E\<close> is never
  Error and \<open>p = W\<close> never Warning; a null value is Neutral.
\<close>

theorem classify_tiers:
  "(classify (Some p) W E = Error \<longleftrightarrow> p < E) \<and>
   (classify (Some p) W E = Warning \<longleftrightarrow> E \<le> p \<and> p < W) \<and>
   (E \<le> W \<longrightarrow> (classify (Some p) W E = Ok \<longleftrightarrow> W \<le> p)) \<and>
   (E \<le> W \<longrightarrow> classify (Some W) W E = Ok) \<and>
   (E < W \<longrightarrow> classify (Some E) W E = Warning) \<and>
   classify (Some E) W E \<noteq> Error \<and>
   classify (Some W) W E \<noteq> Warning \<and>
   classify None W E = Neutral"
  by (auto simp: classify_def)

text \<open>
  C4, at the default ceilings 80 and 50: 80 is Ok and 50 is Warning.
\<close>

theorem classify_tiers_witness:
  "(50::rat) \<le> 80 \<and> (50::rat) < 80 \<and>
   (classify (Some 80) 80 50 = Ok \<longleftrightarrow> (80::rat) \<le> 80) \<and>
   classify (Some 80) 80 50 = Ok \<and>
   classify (Some 50) 80 50 = Warning"
  using classify_tiers [of 80 80 50] by simp

text \<open>
  C5, where the code departs from it. The file \<open>d.ts\<close> is in the head snapshot with 50
  percent and in the base snapshot, under the same key, with 0 percent. The claim gives the
  difference \<open>roundPercentage (50 - 0) = 50\<close>; the code computes no difference, because
  it tests the baseline percentage 0 for truthiness.
\<close>

theorem zero_baseline_difference_not_computed:
  "at_key (files head_ex) ''h4'' = Some (file_ex ''d.ts'' 50) \<and>
   at_key (files base_ex) ''h4'' = Some (file_ex ''d.ts'' 0) \<and>
   roundPercentage (50 - 0) = 50 \<and>
   differencePercentage (file_ex ''d.ts'' 50) (baseCoveragePercentage base_ex ''h4'') = None"
  by code_simp

text \<open>
  C6. Once the report file is found: on \<open>push\<close>, \<open>schedule\<close> and
  \<open>workflow_dispatch\<close>, when the upload returns, the whole effect of the run is the
  upload of the report file under the name of the current ref and two log lines, so no
  failure is signalled, no report is rendered or written and no output is set; on any
  event other than these three and \<open>pull_request\<close> (an unset event included) the run has
  no effect at all.
\<close>

theorem push_like_events_upload_other_events_do_nothing:
  assumes ex: "checkFileExists e (getInput e ''filename'') = Inr True"
  shows "(process_env e ''GITHUB_EVENT_NAME''
            \<in> {Some ''push'', Some ''schedule'', Some ''workflow_dispatch''} \<longrightarrow>
          uploadArtifacts e [getInput e ''filename''] (env_or_empty e ''GITHUB_REF_NAME'') = Inr () \<longrightarrow>
          run e = init_state
            \<lparr>infos := [[Str ''Uploading '', Str (getInput e ''filename'')], [Str ''Complete'']],
             uploaded := [([getInput e ''filename''], env_or_empty e ''GITHUB_REF_NAME'')]\<rparr>) \<and>
         (process_env e ''GITHUB_EVENT_NAME''
            \<notin> {Some ''pull_request'', Some ''push'', Some ''schedule'', Some ''workflow_dispatch''} \<longrightarrow>
          run e = init_state)"
proof (intro conjI impI)
  assume ev: "process_env e ''GITHUB_EVENT_NAME''
            \<in> {Some ''push'', Some ''schedule'', Some ''workflow_dispatch''}"
    and up: "uploadArtifacts e [getInput e ''filename''] (env_or_empty e ''GITHUB_REF_NAME'') = Inr ()"
  from ev have np: "process_env e ''GITHUB_EVENT_NAME'' \<noteq> Some ''pull_request''" by auto
  from ev have disj: "process_env e ''GITHUB_EVENT_NAME'' = Some ''push'' \<or>
      process_env e ''GITHUB_EVENT_NAME'' = Some ''schedule'' \<or>
      process_env e ''GITHUB_EVENT_NAME'' = Some ''workflow_dispatch''" by simp
  have "run_body e init_state = upload e (getInput e ''filename'') init_state"
    using ex np disj by (simp add: run_body_def Let_def)
  then show "run e = init_state
            \<lparr>infos := [[Str ''Uploading '', Str (getInput e ''filename'')], [Str ''Complete'']],
             uploaded := [([getInput e ''filename''], env_or_empty e ''GITHUB_REF_NAME'')]\<rparr>"
    using up by (simp add: run_def upload_def Let_def info_def init_state_def)
next
  assume "process_env e ''GITHUB_EVENT_NAME''
            \<notin> {Some ''pull_request'', Some ''push'', Some ''schedule'', Some ''workflow_dispatch''}"
  then have "run_body e init_state = (Inr (), init_state)"
    using ex by (simp add: run_body_def Let_def)
  then show "run e = init_state" by (simp add: run_def)
qed

text \<open>
  C6, at two concrete runs: a \<open>push\<close> on the ref \<open>feature\<close>, and a \<open>release\<close> event.
\<close>

theorem push_like_events_upload_other_events_do_nothing_witness:
  "checkFileExists (env_ex inputs_ex (Some ''push'') None None) ''cov.xml'' = Inr True \<and>
   run (env_ex inputs_ex (Some ''push'') None None) =
     init_state\<lparr>infos := [[Str ''Uploading '', Str ''cov.xml''], [Str ''Complete'']],
                uploaded := [([''cov.xml''], ''feature'')]\<rparr> \<and>
   run (env_ex inputs_ex (Some ''release'') None None) = init_state"
proof -
  let ?p = "env_ex inputs_ex (Some ''push'') None None"
  let ?r = "env_ex inputs_ex (Some ''release'') None None"
  have exp: "checkFileExists ?p (getInput ?p ''filename'') = Inr True"
    and exr: "checkFileExists ?r (getInput ?r ''filename'') = Inr True"
    by (simp_all add: env_ex_def)
  from push_like_events_upload_other_events_do_nothing [OF exp] have
    "run ?p = init_state\<lparr>infos := [[Str ''Uploading '', Str ''cov.xml''], [Str ''Complete'']],
                uploaded := [([''cov.xml''], ''feature'')]\<rparr>"
    by (simp add: env_ex_def env_or_empty_def)
  moreover from push_like_events_upload_other_events_do_nothing [OF exr] have "run ?r = init_state"
    by (simp add: env_ex_def)
  moreover have "checkFileExists ?p ''cov.xml'' = Inr True" by (simp add: env_ex_def)
  ultimately show ?thesis by simp
qed

text \<open>
  C7. When \<open>checkFileExists\<close> answers false for the configured file, the whole effect of
  the run is one failure, \<open>Unable to access\<close> followed by the file name: nothing is
  written, uploaded or set as an output, whatever the event is.
\<close>

theorem missing_report_file_fails_at_once:
  assumes "checkFileExists e (getInput e ''filename'') = Inr False"
  shows "run e = init_state\<lparr>failed := [[Str ''Unable to access '', Str (getInput e ''filename'')]]\<rparr>"
  using assms by (simp add: run_def run_body_def Let_def setFailed_def init_state_def)

text \<open>
  C7, at a \<open>pull_request\<close> run where the file is missing.
\<close>

theorem missing_report_file_fails_at_once_witness:
  "checkFileExists
     ((env_ex inputs_ex (Some ''pull_request'') (Some head_ex) (Some base_ex))
        \<lparr>checkFileExists := (\<lambda>p. Inr False)\<rparr>) ''cov.xml'' = Inr False \<and>
   run ((env_ex inputs_ex (Some ''pull_request'') (Some head_ex) (Some base_ex))
        \<lparr>checkFileExists := (\<lambda>p. Inr False)\<rparr>)
     = init_state\<lparr>failed := [[Str ''Unable to access '', Str ''cov.xml'']]\<rparr>"
  using missing_report_file_fails_at_once [of "(env_ex inputs_ex (Some ''pull_request'') (Some head_ex) (Some base_ex))
        \<lparr>checkFileExists := (\<lambda>p. Inr False)\<rparr>"]
  by (simp add: env_ex_def)

text \<open>
  C8. In the overall block with a baseline, the colour of the Difference badge is the
  classifier called with no thresholds, that is with the default ceilings 80 and 50, while
  the colours of the Current and Baseline badges are the classifier called with the
  configured \<open>fileCoverageErrorMin\<close> and \<open>fileCoverageWarningMax\<close>.
\<close>

theorem difference_badge_uses_default_thresholds:
  assumes "reportOverallCoverage inp" and "truthy (Some (Coverage.coverage baseCoverage))"
  shows "add_overall inp headCoverage (Some baseCoverage) difference s =
     add_block Break
       (add_block
          (RawTable
             [[Plain '''', Plain ''''],
              [Plain ''Current'',
               BadgeImage ''Current''
                 (Badge ''Current'' (Some (Coverage.coverage headCoverage))
                    (colorizeBadgeByThreshold (Some (Coverage.coverage headCoverage))
                       (Some (fileCoverageErrorMin inp)) (Some (fileCoverageWarningMax inp)))
                    ''for-the-badge'')],
              [Plain ''Baseline'',
               BadgeImage ''Baseline''
                 (Badge ''Baseline'' (Some (Coverage.coverage baseCoverage))
                    (colorizeBadgeByThreshold (Some (Coverage.coverage baseCoverage))
                       (Some (fileCoverageErrorMin inp)) (Some (fileCoverageWarningMax inp)))
                    ''for-the-badge'')],
              [Plain ''Difference'',
               BadgeImage ''Difference''
                 (Badge ''Difference'' difference
                    (colorizeBadgeByThreshold difference None None)
                    ''for-the-badge'')]])
          (add_block Break s)) \<and>
     colorizeBadgeByThreshold difference None None = classify difference 80 50 \<and>
     colorizeBadgeByThreshold (Some (Coverage.coverage headCoverage))
         (Some (fileCoverageErrorMin inp)) (Some (fileCoverageWarningMax inp))
       = classify (Some (Coverage.coverage headCoverage))
           (fileCoverageWarningMax inp) (fileCoverageErrorMin inp) \<and>
     colorizeBadgeByThreshold (Some (Coverage.coverage baseCoverage))
         (Some (fileCoverageErrorMin inp)) (Some (fileCoverageWarningMax inp))
       = classify (Some (Coverage.coverage baseCoverage))
           (fileCoverageWarningMax inp) (fileCoverageErrorMin inp)"
  using assms
  by (simp add: add_overall_def generateOverallCoverageReport_def current_row_def
      colorizeBadgeByThreshold_def warningCeiling_of_def errorCeiling_of_def)

text \<open>
  C8, with the configured thresholds 2 and 60, current 75, baseline 70 and difference 5:
  Current and Baseline are Ok, and the Difference badge is Error although 5 is Warning
  under the configured thresholds.
\<close>

theorem difference_badge_uses_default_thresholds_witness:
  "reportOverallCoverage inputs_low \<and> truthy (Some (Coverage.coverage head_ex)) \<and>
   overallDifferencePercentage base_ex (Some head_ex) = Some 5 \<and>
   add_overall inputs_low base_ex (Some head_ex) (Some 5) init_state =
     init_state\<lparr>summary :=
       [Break,
        RawTable
          [[Plain '''', Plain ''''],
           [Plain ''Current'',
            BadgeImage ''Current'' (Badge ''Current'' (Some 75) Ok ''for-the-badge'')],
           [Plain ''Baseline'',
            BadgeImage ''Baseline'' (Badge ''Baseline'' (Some 70) Ok ''for-the-badge'')],
           [Plain ''Difference'',
            BadgeImage ''Difference'' (Badge ''Difference'' (Some 5) Error ''for-the-badge'')]],
        Break]\<rparr> \<and>
   classify (Some 5) (fileCoverageWarningMax inputs_low) (fileCoverageErrorMin inputs_low)
     = Warning"
proof -
  have r: "reportOverallCoverage inputs_low"
    by (simp add: inputs_low_def inputs_ex_def)
  have t: "truthy (Some (Coverage.coverage head_ex))"
    by (simp add: truthy_def head_ex_def)
  have d: "overallDifferencePercentage base_ex (Some head_ex) = Some 5"
    by code_simp
  from difference_badge_uses_default_thresholds [OF r t, of base_ex "Some 5" init_state] r t d show ?thesis
    by (simp add: inputs_low_def inputs_ex_def head_ex_def base_ex_def classify_def
        add_block_def init_state_def)
qed

text \<open>
  C9. For a file whose key is in the base snapshot with a coverage of exactly 0, the
  callback of \<open>generateMarkdown\<close> computes no difference, renders the Difference cell as
  the null case and leaves the state as it was: it signals no failure for the file,
  whatever \<open>failOnNegativeDifference\<close> is.
\<close>

theorem zero_baseline_file_row_has_null_difference:
  assumes "at_key (files baseCoverage) hash = Some bf" and "CoverageFile.coverage bf = 0"
  shows "differencePercentage cf (baseCoveragePercentage baseCoverage hash) = None \<and>
     file_row inp headCoverage (Some baseCoverage) (hash, cf) s =
       (Inr [Plain (relative cf),
             colorizePercentageByThreshold (Some 0)
               (Some (fileCoverageWarningMax inp)) (Some (fileCoverageErrorMin inp)),
             colorizePercentageByThreshold (Some (CoverageFile.coverage cf))
               (Some (fileCoverageWarningMax inp)) (Some (fileCoverageErrorMin inp)),
             Pct Neutral None], s)"
  using assms
  by (simp add: baseCoveragePercentage_def differencePercentage_def truthy_def file_row_def
      colorizePercentageByThreshold_def classify_def)

text \<open>
  C9, at the file \<open>d.ts\<close>, in both snapshots, with 0 percent in the base.
\<close>

theorem zero_baseline_file_row_has_null_difference_witness:
  "at_key (files base_ex) ''h4'' = Some (file_ex ''d.ts'' 0) \<and>
   CoverageFile.coverage (file_ex ''d.ts'' 0) = 0 \<and>
   (''h4'', file_ex ''d.ts'' 50) \<in> set (files head_ex) \<and>
   differencePercentage (file_ex ''d.ts'' 50) (baseCoveragePercentage base_ex ''h4'') = None \<and>
   file_row inputs_ex head_ex (Some base_ex) (''h4'', file_ex ''d.ts'' 50) init_state =
     (Inr [Plain ''d.ts'', Pct Error (Some 0), Pct Warning (Some 50), Pct Neutral None],
      init_state)"
proof -
  have a: "at_key (files base_ex) ''h4'' = Some (file_ex ''d.ts'' 0)"
    by (simp add: at_key_def base_ex_def)
  have z: "CoverageFile.coverage (file_ex ''d.ts'' 0) = 0"
    by (simp add: file_ex_def)
  have i: "(''h4'', file_ex ''d.ts'' 50) \<in> set (files head_ex)"
    by (simp add: head_ex_def)
  have r0: "roundPercentage 0 = 0" and r50: "roundPercentage 50 = 50" by code_simp+
  from zero_baseline_file_row_has_null_difference [OF a z, of "file_ex ''d.ts'' 50" inputs_ex head_ex init_state] a z i
  show ?thesis
    by (simp add: file_ex_def inputs_ex_def colorizePercentageByThreshold_def classify_def
        warningCeiling_of_def errorCeiling_of_def r0 r50)
qed

text \<open>
  C10. When the baseline's overall coverage is exactly 0, an overall difference is
  computed, and yet the overall block of the written report is the table with the single
  Current row: the only \<open>RawTable\<close> block added to the document is that one.
\<close>

theorem zero_baseline_overall_block_has_single_row:
  assumes zero: "Coverage.coverage baseCoverage = 0"
    and rep: "reportOverallCoverage (getInputs e)"
    and wr: "\<And>doc. writeFile e (markdownFilename (getInputs e) @ ''.md'') doc = Inr ()"
    and sw: "\<And>doc. summary_write e doc = Inr ()"
  shows "overallDifferencePercentage headCoverage (Some baseCoverage)
       = Some (roundPercentage (Coverage.coverage headCoverage)) \<and>
     (\<exists>s' doc. generateMarkdown e headCoverage (Some baseCoverage) s = (Inr (), s') \<and>
        written s' = written s @ [(markdownFilename (getInputs e) @ ''.md'', doc)] \<and>
        RawTable
          [[Plain '''', Plain ''''],
           [Plain ''Current'',
            BadgeImage ''Current''
              (Badge ''Current'' (Some (Coverage.coverage headCoverage))
                 (colorizeBadgeByThreshold (Some (Coverage.coverage headCoverage))
                    (Some (fileCoverageErrorMin (getInputs e)))
                    (Some (fileCoverageWarningMax (getInputs e))))
                 ''for-the-badge'')]]
          \<in> set doc \<and>
        (\<forall>t. RawTable t \<in> set doc \<longrightarrow>
           RawTable t \<in> set (summary s) \<or>
           t = [[Plain '''', Plain ''''],
                [Plain ''Current'',
                 BadgeImage ''Current''
                   (Badge ''Current'' (Some (Coverage.coverage headCoverage))
                      (colorizeBadgeByThreshold (Some (Coverage.coverage headCoverage))
                         (Some (fileCoverageErrorMin (getInputs e)))
                         (Some (fileCoverageWarningMax (getInputs e))))
                      ''for-the-badge'')]]))"
proof -
  let ?inp = "getInputs e"
  let ?b = "Some baseCoverage"
  let ?od = "overallDifferencePercentage headCoverage ?b"
  let ?T = "[[Plain '''', Plain ''''],
           [Plain ''Current'',
            BadgeImage ''Current''
              (Badge ''Current'' (Some (Coverage.coverage headCoverage))
                 (colorizeBadgeByThreshold (Some (Coverage.coverage headCoverage))
                    (Some (fileCoverageErrorMin ?inp)) (Some (fileCoverageWarningMax ?inp)))
                 ''for-the-badge'')]]"
  have od: "?od = Some (roundPercentage (Coverage.coverage headCoverage))"
    using zero by (simp add: overallDifferencePercentage_def)
  have tab: "generateOverallCoverageReport (Coverage.coverage headCoverage)
       (map_option Coverage.coverage ?b) ?od
       (fileCoverageErrorMin ?inp) (fileCoverageWarningMax ?inp) = ?T"
    using zero by (simp add: generateOverallCoverageReport_def truthy_def current_row_def)
  from generateMarkdown_eq [of e headCoverage ?b s] obtain rows s1 where
    m: "map_rows (file_row ?inp headCoverage ?b) (files headCoverage) s = (Inr rows, s1)" and
    g: "generateMarkdown e headCoverage ?b s =
       write_results e ?inp headCoverage
         (add_package ?inp headCoverage ?b rows
            (add_overall ?inp headCoverage ?b ?od
               (add_badge ?inp headCoverage
                  (add_block (Heading ''Code Coverage Report'')
                     (check_overall_difference ?inp ?od
                        (check_threshold ?inp headCoverage s1))))))" by blast
  let ?s7 = "add_package ?inp headCoverage ?b rows
            (add_overall ?inp headCoverage ?b ?od
               (add_badge ?inp headCoverage
                  (add_block (Heading ''Code Coverage Report'')
                     (check_overall_difference ?inp ?od
                        (check_threshold ?inp headCoverage s1)))))"
  let ?s' = "snd (generateMarkdown e headCoverage ?b s)"
  from map_rows_state [OF m] obtain ms where s1: "s1 = s\<lparr>failed := failed s @ ms\<rparr>" by blast
  have fin: "generateMarkdown e headCoverage ?b s = (Inr (), ?s')"
    using g write_results_ok [OF wr sw, of headCoverage ?s7] by simp
  have w: "written ?s' = written s @ [(markdownFilename ?inp @ ''.md'', summary ?s7)]"
    using g write_results_ok [OF wr sw, of headCoverage ?s7] s1
    by (simp add: untouched_adds untouched_checks outputs_add_block written_add_block
        job_summary_add_block)
  have doc: "summary ?s7 =
      summary s @ [Heading ''Code Coverage Report''] @
      (if badge ?inp
        then [Image
                (Badge ''Code Coverage'' (Some (Coverage.coverage headCoverage))
                   (colorizeBadgeByThreshold (Some (Coverage.coverage headCoverage))
                      (Some (fileCoverageErrorMin ?inp)) (Some (fileCoverageWarningMax ?inp)))
                   ''flat'')
                ''Code Coverage'']
        else []) @
      [Break, RawTable ?T, Break] @
      (if reportPackageCoverage ?inp
        then [Table (generatePackageCoverageReport ?b rows), Break,
              RawText
                [Str ''<i>Minimum allowed coverage is</i> <code>'',
                 Num (overallCoverageFailThreshold ?inp),
                 Str ''%</code>, this run produced</i> <code>'',
                 Num (Coverage.coverage headCoverage), Str ''%</code>'']]
        else [])"
    using rep s1 tab
    by (simp add: summary_add_package summary_add_overall summary_add_badge summary_add_block
        untouched_checks)
  have mem: "RawTable ?T \<in> set (summary ?s7)"
    by (simp only: doc) simp
  have only: "\<forall>t. RawTable t \<in> set (summary ?s7) \<longrightarrow> RawTable t \<in> set (summary s) \<or> t = ?T"
    by (simp only: doc) auto
  show ?thesis
    apply (rule conjI)
     apply (rule od)
    apply (rule exI [of _ ?s'])
    apply (rule exI [of _ "summary ?s7"])
    using fin w mem only apply (intro conjI)
       apply assumption+
    done
qed

text \<open>
  C10, at head overall 70 against a baseline with overall 0.
\<close>

theorem zero_baseline_overall_block_has_single_row_witness:
  "Coverage.coverage base_zero = 0 \<and>
   reportOverallCoverage (getInputs (env_ex inputs_ex None None None)) \<and>
   overallDifferencePercentage head_ex (Some base_zero) = Some 70 \<and>
   (\<exists>s' doc. generateMarkdown (env_ex inputs_ex None None None) head_ex (Some base_zero)
        init_state = (Inr (), s') \<and>
      written s' = [(''code-coverage-results.md'', doc)] \<and>
      RawTable
        [[Plain '''', Plain ''''],
         [Plain ''Current'',
          BadgeImage ''Current'' (Badge ''Current'' (Some 70) Warning ''for-the-badge'')]]
        \<in> set doc \<and>
      (\<forall>t. RawTable t \<in> set doc \<longrightarrow>
         t = [[Plain '''', Plain ''''],
              [Plain ''Current'',
               BadgeImage ''Current'' (Badge ''Current'' (Some 70) Warning ''for-the-badge'')]]))"
proof -
  let ?e = "env_ex inputs_ex None None None"
  have z: "Coverage.coverage base_zero = 0"
    by (simp add: base_zero_def)
  have rep: "reportOverallCoverage (getInputs ?e)"
    by (simp add: env_ex_def inputs_ex_def)
  have wr: "\<And>doc. writeFile ?e (markdownFilename (getInputs ?e) @ ''.md'') doc = Inr ()"
    by (simp add: env_ex_def)
  have sw: "\<And>doc. summary_write ?e doc = Inr ()"
    by (simp add: env_ex_def)
  have r: "roundPercentage 70 = 70" by code_simp
  have c: "colorizeBadgeByThreshold (Some 70)
             (Some (fileCoverageErrorMin (getInputs ?e)))
             (Some (fileCoverageWarningMax (getInputs ?e))) = Warning"
    by (simp add: colorizeBadgeByThreshold_def classify_def head_ex_def env_ex_def inputs_ex_def
        warningCeiling_of_def errorCeiling_of_def)
  have hc: "Coverage.coverage head_ex = 70" by (simp add: head_ex_def)
  have nm: "markdownFilename (getInputs ?e) @ ''.md'' = ''code-coverage-results.md''"
    by (simp add: env_ex_def inputs_ex_def)
  have s0: "written init_state = []" "summary init_state = []"
    by (simp_all add: init_state_def)
  from zero_baseline_overall_block_has_single_row [OF z rep wr sw, of head_ex init_state]
  show ?thesis
    unfolding hc c nm s0 r using z rep by simp
qed

end
